theory Spec2Isabelle
  imports Main "HOL-Library.Word"
begin

unbundle bit_operations_syntax

section \<open>Values, errors and outcomes\<close>

text \<open>
  The repository is a facade over the zap logging library. It comes in two variants:
  \<^verbatim>\<open>package logger\<close> (src/logger.go), which initialises itself on the first logging
  call, and \<^verbatim>\<open>package tp_logger\<close> (src/unnamed/part_000), which must be initialised by
  its caller. Both keep one package-level \<^verbatim>\<open>globalLogger\<close>.

  A Go \<^verbatim>\<open>interface{}\<close> argument is one of a few kinds of value; the facade only passes
  such values on.
\<close>

datatype any = AString string | AInt int | ABool bool | ANil

text \<open>
  A Go \<^verbatim>\<open>error\<close>: \<^verbatim>\<open>fmt.Errorf("text")\<close> is \<open>ErrNew\<close>, and
  \<^verbatim>\<open>fmt.Errorf("prefix: %w", err)\<close> is \<open>ErrWrap\<close>, which keeps the cause.
\<close>

datatype error = ErrNew string | ErrWrap string error

fun error_text :: "error \<Rightarrow> string" where
  "error_text (ErrNew s) = s"
| "error_text (ErrWrap p e) = p @ error_text e"

fun Unwrap :: "error \<Rightarrow> error option" where
  "Unwrap (ErrNew s) = None"
| "Unwrap (ErrWrap p e) = Some e"

text \<open>
  The text of a record or of a panic: \<^verbatim>\<open>fmt.Sprint\<close> of arguments, \<^verbatim>\<open>fmt.Sprintf\<close> of a
  format and arguments, or a literal string. The facade formats nothing itself.
\<close>

datatype message = Sprint "any list" | Sprintf string "any list" | Literal string

text \<open>
  How a call ends: it returns, it panics (a nil pointer dereference, or the panic zap
  raises after a Panic-level record, or \<^verbatim>\<open>MustInit\<close>'s), or the process exits (zap after a
  Fatal-level record).
\<close>

datatype panic = NilPointerDereference | PanicWith message

datatype outcome = Returned | Panicked panic | Exited nat

section \<open>The standard library, as far as the facade calls it\<close>

subsection \<open>Decimal output of \<^verbatim>\<open>%d\<close>\<close>

definition digit_char :: "nat \<Rightarrow> char" where
  "digit_char d = ''0123456789'' ! (d mod 10)"

fun show_nat :: "nat \<Rightarrow> string" where
  "show_nat n = (if n < 10 then [digit_char n] else show_nat (n div 10) @ [digit_char (n mod 10)])"

declare show_nat.simps [simp del]

definition show_int :: "int \<Rightarrow> string" where
  "show_int i = (if i < 0 then CHR ''-'' # show_nat (nat (- i)) else show_nat (nat i))"

subsection \<open>\<^verbatim>\<open>path/filepath\<close>: \<^verbatim>\<open>Dir\<close> and \<^verbatim>\<open>Clean\<close> on a slash-separated path\<close>

fun split_sep :: "string \<Rightarrow> string list" where
  "split_sep [] = [[]]"
| "split_sep (c # cs) =
     (if c = CHR ''/'' then [] # split_sep cs
      else (case split_sep cs of [] \<Rightarrow> [[c]] | x # xs \<Rightarrow> (c # x) # xs))"

fun join_sep :: "string list \<Rightarrow> string" where
  "join_sep [] = []"
| "join_sep [x] = x"
| "join_sep (x # y # ys) = x @ CHR ''/'' # join_sep (y # ys)"

text \<open>
  \<^verbatim>\<open>Clean\<close> drops empty and \<^verbatim>\<open>.\<close> elements, cancels an inner \<^verbatim>\<open>..\<close> against the element
  before it, and drops a \<^verbatim>\<open>..\<close> that would climb above the root. The stack holds the
  elements kept so far, last first.
\<close>

definition clean_elem :: "bool \<Rightarrow> string list \<Rightarrow> string \<Rightarrow> string list" where
  "clean_elem rooted stack e =
     (if e = [] \<or> e = ''.'' then stack
      else if e = ''..'' then
        (case stack of
           [] \<Rightarrow> (if rooted then [] else [e])
         | t # ts \<Rightarrow> (if t = ''..'' then e # stack else ts))
      else e # stack)"

definition Clean :: "string \<Rightarrow> string" where
  "Clean path =
     (if path = [] then ''.''
      else
        let rooted = (hd path = CHR ''/'');
            body = join_sep (rev (foldl (clean_elem rooted) [] (split_sep path)))
        in if rooted then CHR ''/'' # body
           else if body = [] then ''.'' else body)"

text \<open>\<^verbatim>\<open>Dir\<close> cuts the path after its last separator and cleans what is left.\<close>

definition filepath_Dir :: "string \<Rightarrow> string" where
  "filepath_Dir path = Clean (rev (dropWhile (\<lambda>c. c \<noteq> CHR ''/'') (rev path)))"

text \<open>The directories \<^verbatim>\<open>MkdirAll\<close> visits for a path: each ancestor, then the path itself.\<close>

definition path_chain :: "string \<Rightarrow> string list" where
  "path_chain path =
     (let rooted = (path \<noteq> [] \<and> hd path = CHR ''/'');
          elems = filter (\<lambda>e. e \<noteq> []) (split_sep path)
      in map (\<lambda>n. (if rooted then ''/'' else []) @ join_sep (take n elems))
           [1 ..< Suc (length elems)])"

section \<open>The zap library, as far as the facade configures it\<close>

datatype level =
  DebugLevel | InfoLevel | WarnLevel | ErrorLevel | DPanicLevel | PanicLevel | FatalLevel

fun level_num :: "level \<Rightarrow> int" where
  "level_num DebugLevel = -1"
| "level_num InfoLevel = 0"
| "level_num WarnLevel = 1"
| "level_num ErrorLevel = 2"
| "level_num DPanicLevel = 3"
| "level_num PanicLevel = 4"
| "level_num FatalLevel = 5"

definition Enabled :: "level \<Rightarrow> level \<Rightarrow> bool" where
  "Enabled minimum lvl = (level_num minimum \<le> level_num lvl)"

datatype time_encoder = EpochTimeEncoder | ISO8601TimeEncoder | RFC3339TimeEncoder

record EncoderConfig =
  MessageKey :: string
  LevelKey :: string
  TimeKey :: string
  NameKey :: string
  CallerKey :: string
  StacktraceKey :: string
  EncodeTime :: time_encoder

text \<open>
  \<^verbatim>\<open>zap.Config\<close>. \<open>InitialFields\<close> is a Go map; the facade fills it from one literal
  with five distinct keys, kept here in the literal's order.
\<close>

record zap_Config =
  Level :: level
  Development :: bool
  Encoding :: string
  EncoderCfg :: EncoderConfig
  OutputPaths :: "string list"
  ErrorOutputPaths :: "string list"
  InitialFields :: "(string \<times> any) list"

text \<open>
  zap's two ready-made configurations. They are zap's, not the repository's: the
  production one logs from info level up without development mode, the development one
  from debug level up in development mode; both write to standard error until told
  otherwise.
\<close>

definition NewProductionConfig :: zap_Config where
  "NewProductionConfig =
     \<lparr>Level = InfoLevel, Development = False, Encoding = ''json'',
      EncoderCfg = \<lparr>MessageKey = ''msg'', LevelKey = ''level'', TimeKey = ''ts'',
        NameKey = ''logger'', CallerKey = ''caller'', StacktraceKey = ''stacktrace'',
        EncodeTime = EpochTimeEncoder\<rparr>,
      OutputPaths = [''stderr''], ErrorOutputPaths = [''stderr''], InitialFields = []\<rparr>"

definition NewDevelopmentConfig :: zap_Config where
  "NewDevelopmentConfig =
     \<lparr>Level = DebugLevel, Development = True, Encoding = ''console'',
      EncoderCfg = \<lparr>MessageKey = ''M'', LevelKey = ''L'', TimeKey = ''T'',
        NameKey = ''N'', CallerKey = ''C'', StacktraceKey = ''S'',
        EncodeTime = ISO8601TimeEncoder\<rparr>,
      OutputPaths = [''stderr''], ErrorOutputPaths = [''stderr''], InitialFields = []\<rparr>"

text \<open>
  A constructed logger (\<^verbatim>\<open>*zap.SugaredLogger\<close>): its minimum level, its mode, where it
  writes, the fields it adds to every record, and how many stack frames it skips when it
  reports the caller.
\<close>

record SugaredLogger =
  minLevel :: level
  devMode :: bool
  destinations :: "string list"
  ctxFields :: "(string \<times> any) list"
  callerSkip :: nat

text \<open>An emitted record, reduced to its level, text, fields and destinations.\<close>

record log_record =
  rec_level :: level
  rec_message :: message
  rec_fields :: "(string \<times> any) list"
  rec_destinations :: "string list"

text \<open>
  zap reads loosely typed key/value arguments in pairs. A pair with a string key becomes
  a field; a pair with another key, and a last key without a value, become no field.
\<close>

fun sweetenFields :: "any list \<Rightarrow> (string \<times> any) list" where
  "sweetenFields [] = []"
| "sweetenFields [k] = []"
| "sweetenFields (AString k # v # rest) = (k, v) # sweetenFields rest"
| "sweetenFields (k # v # rest) = sweetenFields rest"

text \<open>A key/value argument list in the sense of the facade's contract.\<close>

fun keyValueList :: "any list \<Rightarrow> bool" where
  "keyValueList [] = True"
| "keyValueList [k] = False"
| "keyValueList (AString k # v # rest) = keyValueList rest"
| "keyValueList (k # v # rest) = False"

definition With :: "SugaredLogger \<Rightarrow> any list \<Rightarrow> SugaredLogger" where
  "With lg args = lg\<lparr>ctxFields := ctxFields lg @ sweetenFields args\<rparr>"

datatype zap_Option = AddCallerSkip nat

fun skipOf :: "zap_Option \<Rightarrow> nat" where
  "skipOf (AddCallerSkip n) = n"

section \<open>The process and its surroundings\<close>

text \<open>A reading of the wall clock: seconds since the Unix epoch and nanoseconds within.\<close>

record wall_time =
  t_sec :: int
  t_nsec :: nat

definition Unix :: "wall_time \<Rightarrow> int" where
  "Unix t = t_sec t"

text \<open>\<^verbatim>\<open>UnixNano\<close> is an \<^verbatim>\<open>int64\<close> and wraps for instants it cannot hold.\<close>

definition UnixNano :: "wall_time \<Rightarrow> 64 word" where
  "UnixNano t = word_of_int (t_sec t * 1000000000 + int (t_nsec t))"

text \<open>What the facade does to the world outside the process, in the order it does it.\<close>

datatype effect =
  Eff_MkdirAll string "32 word"
| Eff_Build zap_Config
| Eff_OpenFile string

text \<open>
  One state for the two package variables and for what the code reads and writes around
  them.
  \<^item> \<open>globalLogger\<close> and \<open>initialized\<close> are the package variables (\<open>None\<close> is \<^verbatim>\<open>nil\<close>;
    the second exists in \<^verbatim>\<open>package logger\<close> only).
  \<^item> \<open>environ\<close> is \<^verbatim>\<open>os.Getenv\<close> (the empty string for an unset variable),
    \<open>hostname\<close> the result of \<^verbatim>\<open>os.Hostname\<close>, \<open>clock\<close> the successive readings of
    \<^verbatim>\<open>time.Now\<close> with \<open>clock_reads\<close> counting them, and \<open>rand_draw\<close> the number the
    generator seeded with a given seed hands to \<^verbatim>\<open>Intn\<close>.
  \<^item> \<open>dirs\<close> maps each known directory to the mode it was created with, \<open>files\<close> lists
    the log files opened; \<open>mkdir_error\<close> and \<open>open_error\<close> say for which paths the
    operating system refuses.
  \<^item> \<open>effects\<close> and \<open>sink\<close> record the calls made to the file system and to zap's
    builder, and the records emitted. \<open>init_calls\<close> counts the entries into \<^verbatim>\<open>Init\<close>; the
    Go code has no such counter, it is the hook that makes construction attempts
    countable.
\<close>

record world =
  globalLogger :: "SugaredLogger option"
  initialized :: bool
  environ :: "string \<Rightarrow> string"
  hostname :: "error + string"
  clock :: "nat \<Rightarrow> wall_time"
  clock_reads :: nat
  rand_draw :: "64 word \<Rightarrow> nat"
  dirs :: "string \<rightharpoonup> 32 word"
  files :: "string list"
  mkdir_error :: "string \<Rightarrow> error option"
  open_error :: "string \<Rightarrow> error option"
  effects :: "effect list"
  sink :: "log_record list"
  init_calls :: nat

definition os_Getenv :: "world \<Rightarrow> string \<Rightarrow> string" where
  "os_Getenv w name = environ w name"

definition time_Now :: "world \<Rightarrow> wall_time \<times> world" where
  "time_Now w = (clock w (clock_reads w), w\<lparr>clock_reads := Suc (clock_reads w)\<rparr>)"

text \<open>
  \<^verbatim>\<open>r.Intn(n)\<close> for \<open>n > 0\<close>, the only case the facade uses: the remainder modulo \<open>n\<close> of
  the non-negative number the seeded generator hands out.
\<close>

definition Intn :: "(64 word \<Rightarrow> nat) \<Rightarrow> 64 word \<Rightarrow> nat \<Rightarrow> int" where
  "Intn draw seed n = int (draw seed mod n)"

text \<open>The mode \<^verbatim>\<open>0755\<close>, an octal literal of type \<^verbatim>\<open>os.FileMode\<close> (\<^verbatim>\<open>uint32\<close>).\<close>

definition mode_0755 :: "32 word" where
  "mode_0755 = 7 * 64 + 5 * 8 + 5"

definition is_dir :: "(string \<rightharpoonup> 32 word) \<Rightarrow> string \<Rightarrow> bool" where
  "is_dir d p = (p = ''/'' \<or> p = ''.'' \<or> d p \<noteq> None)"

definition mkdir_missing :: "32 word \<Rightarrow> (string \<rightharpoonup> 32 word) \<Rightarrow> string \<Rightarrow> (string \<rightharpoonup> 32 word)" where
  "mkdir_missing perm d p = (if is_dir d p then d else d(p \<mapsto> perm))"

text \<open>
  \<^verbatim>\<open>os.MkdirAll(path, perm)\<close>: either the operating system refuses and nothing is
  recorded as created, or the path and each missing ancestor become directories of mode
  \<open>perm\<close> (before the umask), and directories that exist are left as they are.
\<close>

definition MkdirAll :: "string \<Rightarrow> 32 word \<Rightarrow> world \<Rightarrow> error option \<times> world" where
  "MkdirAll path perm w =
     (let w1 = w\<lparr>effects := effects w @ [Eff_MkdirAll path perm]\<rparr>
      in case mkdir_error w1 path of
           Some err \<Rightarrow> (Some err, w1)
         | None \<Rightarrow> (None, w1\<lparr>dirs := foldl (mkdir_missing perm) (dirs w1) (path_chain path)\<rparr>))"

text \<open>
  Opening zap's sinks: \<^verbatim>\<open>stdout\<close> and \<^verbatim>\<open>stderr\<close> are the process's own streams and
  always open; any other path is a file to be created or appended to.
\<close>

fun open_sinks :: "string list \<Rightarrow> world \<Rightarrow> error option \<times> world" where
  "open_sinks [] w = (None, w)"
| "open_sinks (p # ps) w =
     (if p = ''stdout'' \<or> p = ''stderr'' then open_sinks ps w
      else
        let w1 = w\<lparr>effects := effects w @ [Eff_OpenFile p]\<rparr>
        in case open_error w1 p of
             Some err \<Rightarrow> (Some err, w1)
           | None \<Rightarrow> open_sinks ps (w1\<lparr>files := files w1 @ [p]\<rparr>))"

text \<open>
  \<^verbatim>\<open>config.Build(opts...)\<close> followed by \<^verbatim>\<open>.Sugar()\<close>: zap looks up the encoder, opens the
  output and error-output sinks and, when all of that works, hands out a logger made
  from the configuration.
\<close>

definition Build :: "zap_Config \<Rightarrow> zap_Option list \<Rightarrow> world \<Rightarrow> (error + SugaredLogger) \<times> world" where
  "Build config opts w =
     (let w1 = w\<lparr>effects := effects w @ [Eff_Build config]\<rparr>
      in if Encoding config \<noteq> ''json'' \<and> Encoding config \<noteq> ''console''
         then (Inl (ErrNew (''no encoder registered for name '' @ Encoding config)), w1)
         else
           case open_sinks (OutputPaths config @ ErrorOutputPaths config) w1 of
             (Some err, w2) \<Rightarrow> (Inl err, w2)
           | (None, w2) \<Rightarrow>
               (Inr \<lparr>minLevel = Level config, devMode = Development config,
                     destinations = OutputPaths config, ctxFields = InitialFields config,
                     callerSkip = sum_list (map skipOf opts)\<rparr>, w2))"

text \<open>
  One logging call on a logger: the record is written when its level is enabled; a
  Panic-level call then panics and a Fatal-level call ends the process, written or not.
\<close>

definition logAt :: "SugaredLogger \<Rightarrow> level \<Rightarrow> message \<Rightarrow> any list \<Rightarrow> world \<Rightarrow> outcome \<times> world" where
  "logAt lg lvl msg kvs w =
     (let w1 = (if Enabled (minLevel lg) lvl
                then w\<lparr>sink := sink w @
                       [\<lparr>rec_level = lvl, rec_message = msg,
                         rec_fields = ctxFields lg @ sweetenFields kvs,
                         rec_destinations = destinations lg\<rparr>]\<rparr>
                else w)
      in (if lvl = PanicLevel then Panicked (PanicWith msg)
          else if lvl = FatalLevel then Exited 1
          else Returned, w1))"

text \<open>A method call on \<^verbatim>\<open>globalLogger\<close>: on \<^verbatim>\<open>nil\<close> it is a nil pointer dereference.\<close>

definition onGlobal :: "level \<Rightarrow> message \<Rightarrow> any list \<Rightarrow> world \<Rightarrow> outcome \<times> world" where
  "onGlobal lvl msg kvs w =
     (case globalLogger w of
        None \<Rightarrow> (Panicked NilPointerDereference, w)
      | Some lg \<Rightarrow> logAt lg lvl msg kvs w)"

text \<open>Statement sequencing: the second statement runs when the first returned.\<close>

definition seq :: "outcome \<times> world \<Rightarrow> (world \<Rightarrow> outcome \<times> world) \<Rightarrow> outcome \<times> world" where
  "seq r f = (case r of (Returned, w) \<Rightarrow> f w | (out, w) \<Rightarrow> (out, w))"

section \<open>The facade\<close>

record Config =
  ServiceName :: string
  LogFile :: string
  Environment :: string
  Version :: string
  Console :: bool

text \<open>\<^verbatim>\<open>generateTraceID\<close> (the same in both variants): two clock readings and one draw.\<close>

definition generateTraceID :: "world \<Rightarrow> string \<times> world" where
  "generateTraceID w =
     (let (t1, w1) = time_Now w;
          seed = UnixNano t1;
          (t2, w2) = time_Now w1
      in (''trace_'' @ show_int (Unix t2) @ ''_'' @ show_int (Intn (rand_draw w2) seed 10000), w2))"

definition getHostname :: "world \<Rightarrow> string" where
  "getHostname w = (case hostname w of Inl err \<Rightarrow> ''unknown'' | Inr name \<Rightarrow> name)"

text \<open>\<^verbatim>\<open>Init\<close>, "Set defaults" (logger.go 81-93, part_000 48-60).\<close>

definition setDefaults :: "Config \<Rightarrow> world \<Rightarrow> Config" where
  "setDefaults cfg0 w =
     (let cfg1 =
            (if Environment cfg0 = [] then
               (let c = cfg0\<lparr>Environment := os_Getenv w ''APP_ENV''\<rparr>
                in if Environment c = [] then c\<lparr>Environment := ''dev''\<rparr> else c)
             else cfg0)
      in (if Version cfg1 = [] then
            (let c = cfg1\<lparr>Version := os_Getenv w ''APP_VERSION''\<rparr>
             in if Version c = [] then c\<lparr>Version := ''1.0.0''\<rparr> else c)
          else cfg1))"

text \<open>\<^verbatim>\<open>Init\<close>, "Configure output paths" (logger.go 97-103, part_000 64-70).\<close>

definition outputPaths :: "Config \<Rightarrow> string list" where
  "outputPaths cfg =
     (let outputs0 = [];
          outputs1 = (if Console cfg then outputs0 @ [''stdout''] else outputs0)
      in outputs1 @ [LogFile cfg])"

text \<open>
  \<^verbatim>\<open>Init\<close>, from \<^verbatim>\<open>zap.NewProductionConfig()\<close> to the \<^verbatim>\<open>InitialFields\<close> literal
  (logger.go 95-125, part_000 62-92), for a configuration whose defaults are set.
\<close>

definition zapConfigFor :: "Config \<Rightarrow> string \<Rightarrow> string \<Rightarrow> zap_Config" where
  "zapConfigFor cfg traceID host =
     (let config0 = NewProductionConfig;
          config1 = config0\<lparr>OutputPaths := outputPaths cfg\<rparr>;
          config2 = config1\<lparr>EncoderCfg := (EncoderCfg config1)
                      \<lparr>TimeKey := ''timestamp'', EncodeTime := RFC3339TimeEncoder,
                       CallerKey := ''caller'', MessageKey := ''message'',
                       LevelKey := ''level''\<rparr>\<rparr>;
          config3 = (if Environment cfg = ''dev''
                     then config2\<lparr>Development := True, Level := DebugLevel\<rparr>
                     else config2)
      in config3\<lparr>InitialFields :=
           [(''service'', AString (ServiceName cfg)),
            (''env'', AString (Environment cfg)),
            (''version'', AString (Version cfg)),
            (''trace_id'', AString traceID),
            (''host'', AString host)]\<rparr>)"

text \<open>\<^verbatim>\<open>Init\<close> of \<^verbatim>\<open>package logger\<close> (logger.go 73-141).\<close>

definition Init :: "Config \<Rightarrow> world \<Rightarrow> error option \<times> world" where
  "Init cfg0 w0 =
     (let w = w0\<lparr>init_calls := Suc (init_calls w0)\<rparr>
      in if ServiceName cfg0 = [] then (Some (ErrNew ''ServiceName is required''), w)
         else if LogFile cfg0 = [] then (Some (ErrNew ''LogFile is required''), w)
         else
           let cfg = setDefaults cfg0 w;
               (traceID, w1) = generateTraceID w;
               config = zapConfigFor cfg traceID (getHostname w1);
               logDir = filepath_Dir (LogFile cfg)
           in case MkdirAll logDir mode_0755 w1 of
                (Some err, w2) \<Rightarrow> (Some (ErrWrap ''failed to create log directory: '' err), w2)
              | (None, w2) \<Rightarrow>
                  (case Build config [AddCallerSkip 1] w2 of
                     (Inl err, w3) \<Rightarrow> (Some (ErrWrap ''failed to build logger: '' err), w3)
                   | (Inr logger, w3) \<Rightarrow>
                       (None, w3\<lparr>globalLogger := Some logger, initialized := True\<rparr>)))"

text \<open>\<^verbatim>\<open>Init\<close> of \<^verbatim>\<open>package tp_logger\<close> (part_000 40-101): no directory, no flag.\<close>

definition tp_Init :: "Config \<Rightarrow> world \<Rightarrow> error option \<times> world" where
  "tp_Init cfg0 w0 =
     (let w = w0\<lparr>init_calls := Suc (init_calls w0)\<rparr>
      in if ServiceName cfg0 = [] then (Some (ErrNew ''ServiceName is required''), w)
         else if LogFile cfg0 = [] then (Some (ErrNew ''LogFile is required''), w)
         else
           let cfg = setDefaults cfg0 w;
               (traceID, w1) = generateTraceID w;
               config = zapConfigFor cfg traceID (getHostname w1)
           in case Build config [AddCallerSkip 1] w1 of
                (Inl err, w3) \<Rightarrow> (Some (ErrWrap ''failed to build logger: '' err), w3)
              | (Inr logger, w3) \<Rightarrow> (None, w3\<lparr>globalLogger := Some logger\<rparr>))"

definition MustInit :: "Config \<Rightarrow> world \<Rightarrow> outcome \<times> world" where
  "MustInit cfg w =
     (case Init cfg w of
        (Some err, w1) \<Rightarrow>
          (Panicked (PanicWith (Sprintf ''Failed to initialize logger: %v'' [AString (error_text err)])), w1)
      | (None, w1) \<Rightarrow> (Returned, w1))"

definition tp_MustInit :: "Config \<Rightarrow> world \<Rightarrow> outcome \<times> world" where
  "tp_MustInit cfg w =
     (case tp_Init cfg w of
        (Some err, w1) \<Rightarrow>
          (Panicked (PanicWith (Sprintf ''Failed to initialize logger: %v'' [AString (error_text err)])), w1)
      | (None, w1) \<Rightarrow> (Returned, w1))"

text \<open>The configuration \<^verbatim>\<open>ensureInitialized\<close> makes up (logger.go 33-44).\<close>

definition lazyConfig :: "world \<Rightarrow> Config" where
  "lazyConfig w =
     (let serviceName0 = os_Getenv w ''SERVICE_NAME'';
          serviceName = (if serviceName0 = [] then ''app'' else serviceName0);
          logFile = ''/app/logs/'' @ serviceName @ ''.log''
      in \<lparr>ServiceName = serviceName, LogFile = logFile, Environment = [], Version = [],
          Console = False\<rparr>)"

text \<open>
  \<^verbatim>\<open>ensureInitialized\<close> (logger.go 27-55). The error of the second \<^verbatim>\<open>Build\<close> is
  discarded; were it to fail, \<^verbatim>\<open>logger\<close> would be \<^verbatim>\<open>nil\<close> and \<^verbatim>\<open>logger.Sugar()\<close> would
  dereference it.
\<close>

definition ensureInitialized :: "world \<Rightarrow> outcome \<times> world" where
  "ensureInitialized w =
     (if initialized w then (Returned, w)
      else
        case Init (lazyConfig w) w of
          (Some err, w1) \<Rightarrow>
            (let zapConfig0 = NewDevelopmentConfig;
                 zapConfig = zapConfig0\<lparr>OutputPaths := [''stdout'']\<rparr>
             in case Build zapConfig [] w1 of
                  (Inl _, w2) \<Rightarrow> (Panicked NilPointerDereference, w2)
                | (Inr logger, w2) \<Rightarrow>
                    (Returned, w2\<lparr>globalLogger := Some logger, initialized := True\<rparr>))
        | (None, w1) \<Rightarrow> (Returned, w1\<lparr>initialized := True\<rparr>))"

text \<open>
  The leveled and structured entry points, named as in the source. In \<^verbatim>\<open>package logger\<close>
  (logger.go 153-281) each one calls \<^verbatim>\<open>ensureInitialized\<close> and then a method of
  \<^verbatim>\<open>globalLogger\<close>; in \<^verbatim>\<open>package tp_logger\<close> (part_000 113-202) each one calls the method at
  once.
\<close>

datatype logcall =
  Print "any list" | Printf string "any list" | Println "any list"
| Fatal "any list" | Fatalf string "any list" | Fatalln "any list"
| Panic "any list" | Panicf string "any list" | Panicln "any list"
| Error "any list" | Errorf string "any list"
| Warn "any list" | Warnf string "any list"
| Info "any list" | Infof string "any list"
| Debug "any list" | Debugf string "any list"
| InfoStruct string "any list" | ErrorStruct string "any list"
| DebugStruct string "any list" | WarnStruct string "any list"

fun logger_call :: "logcall \<Rightarrow> world \<Rightarrow> outcome \<times> world" where
  "logger_call (Print args) w = seq (ensureInitialized w) (onGlobal InfoLevel (Sprint args) [])"
| "logger_call (Printf format args) w = seq (ensureInitialized w) (onGlobal InfoLevel (Sprintf format args) [])"
| "logger_call (Println args) w = seq (ensureInitialized w) (onGlobal InfoLevel (Sprint args) [])"
| "logger_call (Fatal args) w = seq (ensureInitialized w) (onGlobal FatalLevel (Sprint args) [])"
| "logger_call (Fatalf format args) w = seq (ensureInitialized w) (onGlobal FatalLevel (Sprintf format args) [])"
| "logger_call (Fatalln args) w = seq (ensureInitialized w) (onGlobal FatalLevel (Sprint args) [])"
| "logger_call (Panic args) w = seq (ensureInitialized w) (onGlobal PanicLevel (Sprint args) [])"
| "logger_call (Panicf format args) w = seq (ensureInitialized w) (onGlobal PanicLevel (Sprintf format args) [])"
| "logger_call (Panicln args) w = seq (ensureInitialized w) (onGlobal PanicLevel (Sprint args) [])"
| "logger_call (Error args) w = seq (ensureInitialized w) (onGlobal ErrorLevel (Sprint args) [])"
| "logger_call (Errorf format args) w = seq (ensureInitialized w) (onGlobal ErrorLevel (Sprintf format args) [])"
| "logger_call (Warn args) w = seq (ensureInitialized w) (onGlobal WarnLevel (Sprint args) [])"
| "logger_call (Warnf format args) w = seq (ensureInitialized w) (onGlobal WarnLevel (Sprintf format args) [])"
| "logger_call (Info args) w = seq (ensureInitialized w) (onGlobal InfoLevel (Sprint args) [])"
| "logger_call (Infof format args) w = seq (ensureInitialized w) (onGlobal InfoLevel (Sprintf format args) [])"
| "logger_call (Debug args) w = seq (ensureInitialized w) (onGlobal DebugLevel (Sprint args) [])"
| "logger_call (Debugf format args) w = seq (ensureInitialized w) (onGlobal DebugLevel (Sprintf format args) [])"
| "logger_call (InfoStruct msg keysAndValues) w = seq (ensureInitialized w) (onGlobal InfoLevel (Literal msg) keysAndValues)"
| "logger_call (ErrorStruct msg keysAndValues) w = seq (ensureInitialized w) (onGlobal ErrorLevel (Literal msg) keysAndValues)"
| "logger_call (DebugStruct msg keysAndValues) w = seq (ensureInitialized w) (onGlobal DebugLevel (Literal msg) keysAndValues)"
| "logger_call (WarnStruct msg keysAndValues) w = seq (ensureInitialized w) (onGlobal WarnLevel (Literal msg) keysAndValues)"

fun tp_call :: "logcall \<Rightarrow> world \<Rightarrow> outcome \<times> world" where
  "tp_call (Print args) w = onGlobal InfoLevel (Sprint args) [] w"
| "tp_call (Printf format args) w = onGlobal InfoLevel (Sprintf format args) [] w"
| "tp_call (Println args) w = onGlobal InfoLevel (Sprint args) [] w"
| "tp_call (Fatal args) w = onGlobal FatalLevel (Sprint args) [] w"
| "tp_call (Fatalf format args) w = onGlobal FatalLevel (Sprintf format args) [] w"
| "tp_call (Fatalln args) w = onGlobal FatalLevel (Sprint args) [] w"
| "tp_call (Panic args) w = onGlobal PanicLevel (Sprint args) [] w"
| "tp_call (Panicf format args) w = onGlobal PanicLevel (Sprintf format args) [] w"
| "tp_call (Panicln args) w = onGlobal PanicLevel (Sprint args) [] w"
| "tp_call (Error args) w = onGlobal ErrorLevel (Sprint args) [] w"
| "tp_call (Errorf format args) w = onGlobal ErrorLevel (Sprintf format args) [] w"
| "tp_call (Warn args) w = onGlobal WarnLevel (Sprint args) [] w"
| "tp_call (Warnf format args) w = onGlobal WarnLevel (Sprintf format args) [] w"
| "tp_call (Info args) w = onGlobal InfoLevel (Sprint args) [] w"
| "tp_call (Infof format args) w = onGlobal InfoLevel (Sprintf format args) [] w"
| "tp_call (Debug args) w = onGlobal DebugLevel (Sprint args) [] w"
| "tp_call (Debugf format args) w = onGlobal DebugLevel (Sprintf format args) [] w"
| "tp_call (InfoStruct msg keysAndValues) w = onGlobal InfoLevel (Literal msg) keysAndValues w"
| "tp_call (ErrorStruct msg keysAndValues) w = onGlobal ErrorLevel (Literal msg) keysAndValues w"
| "tp_call (DebugStruct msg keysAndValues) w = onGlobal DebugLevel (Literal msg) keysAndValues w"
| "tp_call (WarnStruct msg keysAndValues) w = onGlobal WarnLevel (Literal msg) keysAndValues w"

text \<open>The level, text and key/value arguments an entry point hands to zap.\<close>

fun call_level :: "logcall \<Rightarrow> level" where
  "call_level (Print args) = InfoLevel"
| "call_level (Printf format args) = InfoLevel"
| "call_level (Println args) = InfoLevel"
| "call_level (Fatal args) = FatalLevel"
| "call_level (Fatalf format args) = FatalLevel"
| "call_level (Fatalln args) = FatalLevel"
| "call_level (Panic args) = PanicLevel"
| "call_level (Panicf format args) = PanicLevel"
| "call_level (Panicln args) = PanicLevel"
| "call_level (Error args) = ErrorLevel"
| "call_level (Errorf format args) = ErrorLevel"
| "call_level (Warn args) = WarnLevel"
| "call_level (Warnf format args) = WarnLevel"
| "call_level (Info args) = InfoLevel"
| "call_level (Infof format args) = InfoLevel"
| "call_level (Debug args) = DebugLevel"
| "call_level (Debugf format args) = DebugLevel"
| "call_level (InfoStruct msg keysAndValues) = InfoLevel"
| "call_level (ErrorStruct msg keysAndValues) = ErrorLevel"
| "call_level (DebugStruct msg keysAndValues) = DebugLevel"
| "call_level (WarnStruct msg keysAndValues) = WarnLevel"

fun call_message :: "logcall \<Rightarrow> message" where
  "call_message (Print args) = Sprint args"
| "call_message (Printf format args) = Sprintf format args"
| "call_message (Println args) = Sprint args"
| "call_message (Fatal args) = Sprint args"
| "call_message (Fatalf format args) = Sprintf format args"
| "call_message (Fatalln args) = Sprint args"
| "call_message (Panic args) = Sprint args"
| "call_message (Panicf format args) = Sprintf format args"
| "call_message (Panicln args) = Sprint args"
| "call_message (Error args) = Sprint args"
| "call_message (Errorf format args) = Sprintf format args"
| "call_message (Warn args) = Sprint args"
| "call_message (Warnf format args) = Sprintf format args"
| "call_message (Info args) = Sprint args"
| "call_message (Infof format args) = Sprintf format args"
| "call_message (Debug args) = Sprint args"
| "call_message (Debugf format args) = Sprintf format args"
| "call_message (InfoStruct msg keysAndValues) = Literal msg"
| "call_message (ErrorStruct msg keysAndValues) = Literal msg"
| "call_message (DebugStruct msg keysAndValues) = Literal msg"
| "call_message (WarnStruct msg keysAndValues) = Literal msg"

fun call_pairs :: "logcall \<Rightarrow> any list" where
  "call_pairs (InfoStruct msg keysAndValues) = keysAndValues"
| "call_pairs (ErrorStruct msg keysAndValues) = keysAndValues"
| "call_pairs (DebugStruct msg keysAndValues) = keysAndValues"
| "call_pairs (WarnStruct msg keysAndValues) = keysAndValues"
| "call_pairs c = []"

text \<open>
  \<^verbatim>\<open>WithFields\<close> (logger.go 284-286, part_000 205-207, the same body): a method call on
  \<^verbatim>\<open>globalLogger\<close> with nothing before it, and no assignment.
\<close>

definition WithFields :: "any list \<Rightarrow> world \<Rightarrow> (panic + SugaredLogger) \<times> world" where
  "WithFields keysAndValues w =
     (case globalLogger w of
        None \<Rightarrow> (Inl NilPointerDereference, w)
      | Some lg \<Rightarrow> (Inr (With lg keysAndValues), w))"

text \<open>\<^verbatim>\<open>Sync\<close> (part_000 210-214): a flush when there is a logger; it changes no state here.\<close>

definition Sync :: "world \<Rightarrow> outcome \<times> world" where
  "Sync w = (case globalLogger w of None \<Rightarrow> (Returned, w) | Some lg \<Rightarrow> (Returned, w))"

section \<open>Sequences of calls\<close>

datatype call =
  Log logcall | CallInit Config | CallMustInit Config | CallWithFields "any list"

fun step :: "call \<Rightarrow> world \<Rightarrow> outcome \<times> world" where
  "step (Log c) w = logger_call c w"
| "step (CallInit cfg) w = (Returned, snd (Init cfg w))"
| "step (CallMustInit cfg) w = MustInit cfg w"
| "step (CallWithFields args) w =
     (case WithFields args w of
        (Inl p, w1) \<Rightarrow> (Panicked p, w1)
      | (Inr handle, w1) \<Rightarrow> (Returned, w1))"

text \<open>
  A caller makes calls one after the other; it may recover from a panic and go on, and
  it makes no call after the process has exited.
\<close>

fun run :: "world \<Rightarrow> call list \<Rightarrow> world" where
  "run w [] = w"
| "run w (c # cs) =
     (case step c w of
        (Exited n, w1) \<Rightarrow> w1
      | (out, w1) \<Rightarrow> run w1 cs)"

text \<open>A process of \<^verbatim>\<open>package logger\<close> keeps the flag and the instance together.\<close>

definition consistent :: "world \<Rightarrow> bool" where
  "consistent w = (if initialized w then globalLogger w \<noteq> None else True)"

section \<open>Sample surroundings\<close>

text \<open>
  A freshly started process on a machine where everything works, one where no directory
  can be created, and one where the directory can be created but the log file cannot be
  opened.
\<close>

definition fresh_world :: world where
  "fresh_world =
     \<lparr>globalLogger = None, initialized = False,
      environ = (\<lambda>name. []), hostname = Inr ''box'',
      clock = (\<lambda>n. \<lparr>t_sec = 1700000000, t_nsec = 5\<rparr>), clock_reads = 0,
      rand_draw = (\<lambda>seed. 123456),
      dirs = Map.empty, files = [],
      mkdir_error = (\<lambda>p. None), open_error = (\<lambda>p. None),
      effects = [], sink = [], init_calls = 0\<rparr>"

definition readonly_world :: world where
  "readonly_world = fresh_world\<lparr>mkdir_error := (\<lambda>p. Some (ErrNew ''permission denied''))\<rparr>"

definition nofile_world :: world where
  "nofile_world = fresh_world\<lparr>open_error := (\<lambda>p. Some (ErrNew ''permission denied''))\<rparr>"

definition sample_config :: Config where
  "sample_config =
     \<lparr>ServiceName = ''core'', LogFile = ''/tmp/t.log'', Environment = [], Version = [],
      Console = True\<rparr>"

section \<open>Facts about the pieces\<close>

lemma generateTraceID_eq:
  "generateTraceID w =
     (''trace_'' @ show_int (t_sec (clock w (Suc (clock_reads w)))) @ ''_'' @
        show_int (int (rand_draw w (UnixNano (clock w (clock_reads w))) mod 10000)),
      w\<lparr>clock_reads := Suc (Suc (clock_reads w))\<rparr>)"
  by (simp add: generateTraceID_def time_Now_def Unix_def Intn_def)

lemma open_sinks_std:
  "set ps \<subseteq> {''stdout'', ''stderr''} \<Longrightarrow> open_sinks ps w = (None, w)"
  by (induction ps arbitrary: w) auto

lemma Build_fallback:
  "Build (NewDevelopmentConfig\<lparr>OutputPaths := [''stdout'']\<rparr>) [] w =
     (Inr \<lparr>minLevel = DebugLevel, devMode = True, destinations = [''stdout''],
           ctxFields = [], callerSkip = 0\<rparr>,
      w\<lparr>effects := effects w @ [Eff_Build (NewDevelopmentConfig\<lparr>OutputPaths := [''stdout'']\<rparr>)]\<rparr>)"
  by (simp add: Build_def NewDevelopmentConfig_def)

lemma setDefaults_frame:
  "setDefaults cfg (w\<lparr>init_calls := n\<rparr>) = setDefaults cfg w"
  by (simp add: setDefaults_def os_Getenv_def Let_def)

lemma setDefaults_keeps:
  "ServiceName (setDefaults cfg w) = ServiceName cfg"
  "LogFile (setDefaults cfg w) = LogFile cfg"
  "Console (setDefaults cfg w) = Console cfg"
  by (simp_all add: setDefaults_def Let_def)

text \<open>\<^verbatim>\<open>Init\<close> of \<^verbatim>\<open>package logger\<close> on a configuration that passes validation.\<close>

lemma Init_cases:
  assumes "ServiceName cfg \<noteq> []" "LogFile cfg \<noteq> []"
  shows "Init cfg w =
    (let w0 = w\<lparr>init_calls := Suc (init_calls w)\<rparr>;
         cfg1 = setDefaults cfg w;
         w1 = w0\<lparr>clock_reads := Suc (Suc (clock_reads w))\<rparr>;
         config = zapConfigFor cfg1 (fst (generateTraceID w)) (getHostname w);
         logDir = filepath_Dir (LogFile cfg)
     in case MkdirAll logDir mode_0755 w1 of
          (Some err, w2) \<Rightarrow> (Some (ErrWrap ''failed to create log directory: '' err), w2)
        | (None, w2) \<Rightarrow>
            (case Build config [AddCallerSkip 1] w2 of
               (Inl err, w3) \<Rightarrow> (Some (ErrWrap ''failed to build logger: '' err), w3)
             | (Inr logger, w3) \<Rightarrow>
                 (None, w3\<lparr>globalLogger := Some logger, initialized := True\<rparr>)))"
proof -
  have h: "getHostname (w\<lparr>init_calls := Suc (init_calls w), clock_reads := Suc (Suc (clock_reads w))\<rparr>) = getHostname w"
    by (simp add: getHostname_def)
  have g: "generateTraceID (w\<lparr>init_calls := Suc (init_calls w)\<rparr>) =
      (fst (generateTraceID w), w\<lparr>init_calls := Suc (init_calls w), clock_reads := Suc (Suc (clock_reads w))\<rparr>)"
    by (simp add: generateTraceID_eq)
  show ?thesis
    using assms
    unfolding Init_def Let_def
    by (simp only: if_False setDefaults_frame g prod.case setDefaults_keeps h fst_conv)
qed

text \<open>\<^verbatim>\<open>Init\<close> of \<^verbatim>\<open>package tp_logger\<close> on a configuration that passes validation.\<close>

lemma tp_Init_cases:
  assumes "ServiceName cfg \<noteq> []" "LogFile cfg \<noteq> []"
  shows "tp_Init cfg w =
    (let w0 = w\<lparr>init_calls := Suc (init_calls w)\<rparr>;
         cfg1 = setDefaults cfg w;
         w1 = w0\<lparr>clock_reads := Suc (Suc (clock_reads w))\<rparr>;
         config = zapConfigFor cfg1 (fst (generateTraceID w)) (getHostname w)
     in case Build config [AddCallerSkip 1] w1 of
          (Inl err, w3) \<Rightarrow> (Some (ErrWrap ''failed to build logger: '' err), w3)
        | (Inr logger, w3) \<Rightarrow> (None, w3\<lparr>globalLogger := Some logger\<rparr>))"
proof -
  have h: "getHostname (w\<lparr>init_calls := Suc (init_calls w), clock_reads := Suc (Suc (clock_reads w))\<rparr>) = getHostname w"
    by (simp add: getHostname_def)
  have g: "generateTraceID (w\<lparr>init_calls := Suc (init_calls w)\<rparr>) =
      (fst (generateTraceID w), w\<lparr>init_calls := Suc (init_calls w), clock_reads := Suc (Suc (clock_reads w))\<rparr>)"
    by (simp add: generateTraceID_eq)
  show ?thesis
    using assms
    unfolding tp_Init_def Let_def
    by (simp only: if_False setDefaults_frame g prod.case h fst_conv)
qed

section \<open>The claims\<close>

text \<open>
  C2. \<^verbatim>\<open>Init\<close> with an empty \<open>ServiceName\<close> fails with "ServiceName is required", and
  with a non-empty \<open>ServiceName\<close> but an empty \<open>LogFile\<close> it fails with "LogFile is
  required". In both variants the state it leaves differs from the one it found in the
  call counter only: no directory, no file, no call to the file system or to zap's
  builder, and \<open>globalLogger\<close> and \<open>initialized\<close> as they were.
\<close>

theorem init_rejects_missing_names:
  "(ServiceName cfg = [] \<longrightarrow>
      Init cfg w = (Some (ErrNew ''ServiceName is required''), w\<lparr>init_calls := Suc (init_calls w)\<rparr>) \<and>
      tp_Init cfg w = (Some (ErrNew ''ServiceName is required''), w\<lparr>init_calls := Suc (init_calls w)\<rparr>))
   \<and> (ServiceName cfg \<noteq> [] \<and> LogFile cfg = [] \<longrightarrow>
      Init cfg w = (Some (ErrNew ''LogFile is required''), w\<lparr>init_calls := Suc (init_calls w)\<rparr>) \<and>
      tp_Init cfg w = (Some (ErrNew ''LogFile is required''), w\<lparr>init_calls := Suc (init_calls w)\<rparr>))"
  by (simp add: Init_def tp_Init_def)

theorem init_rejects_missing_names_witness:
  "ServiceName (sample_config\<lparr>ServiceName := []\<rparr>) = []
   \<and> fst (Init (sample_config\<lparr>ServiceName := []\<rparr>) fresh_world) = Some (ErrNew ''ServiceName is required'')
   \<and> fst (tp_Init (sample_config\<lparr>ServiceName := []\<rparr>) fresh_world) = Some (ErrNew ''ServiceName is required'')
   \<and> effects (snd (Init (sample_config\<lparr>ServiceName := []\<rparr>) fresh_world)) = []
   \<and> globalLogger (snd (Init (sample_config\<lparr>ServiceName := []\<rparr>) fresh_world)) = None
   \<and> ServiceName (sample_config\<lparr>LogFile := []\<rparr>) \<noteq> []
   \<and> LogFile (sample_config\<lparr>LogFile := []\<rparr>) = []
   \<and> fst (Init (sample_config\<lparr>LogFile := []\<rparr>) fresh_world) = Some (ErrNew ''LogFile is required'')
   \<and> fst (tp_Init (sample_config\<lparr>LogFile := []\<rparr>) fresh_world) = Some (ErrNew ''LogFile is required'')
   \<and> files (snd (Init (sample_config\<lparr>LogFile := []\<rparr>) fresh_world)) = []
   \<and> \<not> initialized (snd (Init (sample_config\<lparr>LogFile := []\<rparr>) fresh_world))"
  using init_rejects_missing_names [of "sample_config\<lparr>ServiceName := []\<rparr>" fresh_world]
    init_rejects_missing_names [of "sample_config\<lparr>LogFile := []\<rparr>" fresh_world]
  by (simp add: sample_config_def fresh_world_def)

end
